theory Spec2Isabelle
  imports Complex_Main
begin

section \<open>Exceptions\<close>

text \<open>
  The exceptions that the modelled code can meet; all are subclasses of Python's
  \<open>Exception\<close>. A function from which an exception can escape returns a sum, \<open>Inl\<close>
  carrying the exception.
\<close>

datatype exn =
    CredentialsError
  | SpreadsheetNotFound
  | WorksheetNotFound
  | APIError
  | NameError string
  | ValueError
  | IndexError
  | OverflowError
  | TelegramError

section \<open>User store (utils/database.py)\<close>

text \<open>
  The table \<open>users(telegram_id PRIMARY KEY, name, phone, approved, created_at, approved_at)\<close>
  is a partial map from the key to the remaining columns. A timestamp column holds a naive
  wall-clock reading; it is modelled as the number of microseconds since 1970-01-01 00:00:00
  on the wall clock that produced it. \<open>created_at\<close> is filled by the schema default
  \<open>CURRENT_TIMESTAMP\<close> (SQLite: UTC, whole seconds); \<open>approved_at\<close> is filled with
  \<open>datetime.now().isoformat()\<close> (Python: local time of the host, microseconds).
\<close>

type_synonym timestamp = int

record user_row =
  name :: string
  phone :: string
  approved :: bool
  created_at :: timestamp
  approved_at :: "timestamp option"

type_synonym users_table = "int \<rightharpoonup> user_row"

text \<open>
  What one call into the store sees of its surroundings: whether SQLite raises
  \<open>sqlite3.Error\<close> during the call (then the \<open>with\<close> block rolls back and the handler
  of the function returns its negative result), the UTC clock, and the host's offset from UTC.
\<close>

record db_env =
  db_fault :: bool
  utc_now :: int
  tz_offset :: int

definition current_timestamp :: "db_env \<Rightarrow> timestamp" where
  "current_timestamp e = (utc_now e div 1000000) * 1000000"

definition datetime_now :: "db_env \<Rightarrow> timestamp" where
  "datetime_now e = utc_now e + tz_offset e"

definition save_user :: "db_env \<Rightarrow> users_table \<Rightarrow> int \<Rightarrow> string \<Rightarrow> string \<Rightarrow> bool \<Rightarrow> bool \<times> users_table" where
  "save_user e t telegram_id nm ph appr =
     (if db_fault e then (False, t)
      else if t telegram_id \<noteq> None then (False, t)
      else (True, t(telegram_id \<mapsto>
              \<lparr>name = nm, phone = ph, approved = appr,
               created_at = current_timestamp e, approved_at = None\<rparr>)))"

text \<open>
  The key column is an SQLite INTEGER, a signed 64-bit value, so every key of the table lies
  in that range. A Python int outside the range cannot be bound to the parameter of the
  statement: the \<open>sqlite3\<close> module raises \<open>OverflowError\<close>, which is not an
  \<open>sqlite3.Error\<close>, so the handler of \<open>get_user\<close> does not catch it and it leaves the
  function. Such an id has no row. A fault of the storage layer (the connection cannot be
  opened, as in the repository's tests) comes before the binding.
\<close>

definition in_int64 :: "int \<Rightarrow> bool" where
  "in_int64 i = (- (2 ^ 63) \<le> i \<and> i < 2 ^ 63)"

definition get_user :: "db_env \<Rightarrow> users_table \<Rightarrow> int \<Rightarrow> exn + user_row option" where
  "get_user e t telegram_id =
     (if db_fault e then Inr None
      else case t telegram_id of
             Some row \<Rightarrow> Inr (Some row)
           | None \<Rightarrow> if in_int64 telegram_id then Inr None else Inl OverflowError)"

definition update_user_approval :: "db_env \<Rightarrow> users_table \<Rightarrow> int \<Rightarrow> bool \<Rightarrow> bool \<times> users_table" where
  "update_user_approval e t telegram_id appr =
     (if db_fault e then (False, t)
      else (let approved_at_new = (if appr then Some (datetime_now e) else None)
            in case t telegram_id of
                 None \<Rightarrow> (False, t)
               | Some r \<Rightarrow> (True, t(telegram_id \<mapsto>
                     r\<lparr>approved := appr, approved_at := approved_at_new\<rparr>))))"


definition delete_user :: "db_env \<Rightarrow> users_table \<Rightarrow> int \<Rightarrow> bool \<times> users_table" where
  "delete_user e t telegram_id =
     (if db_fault e then (False, t)
      else if t telegram_id = None then (False, t)
      else (True, t(telegram_id := None)))"

text \<open>The invariant of the data model: \<open>approved_at\<close> is set exactly for approved rows.\<close>

definition row_ok :: "user_row \<Rightarrow> bool" where
  "row_ok r = (approved_at r \<noteq> None \<longleftrightarrow> approved r)"

definition table_ok :: "users_table \<Rightarrow> bool" where
  "table_ok t = (\<forall>r \<in> ran t. row_ok r)"

section \<open>Python built-ins used by the ledger client and the handlers\<close>

text \<open>
  Strings are modelled over code points below 256. \<open>str.strip()\<close> removes the characters
  for which \<open>str.isspace\<close> holds; \<open>int(s)\<close> and \<open>float(s)\<close> skip the white space of
  the numeric parser. Both recognise the same lexical grammar as CPython: an optional sign,
  digit groups that may be separated by single underscores, and for \<open>float\<close> an optional
  fraction and exponent or one of \<open>inf\<close>, \<open>infinity\<close>, \<open>nan\<close> in any letter case.
  A float is modelled by the rational value of the binary64 number or one of the three
  special values: \<open>float\<close> rounds the decimal it reads to binary64 and the addition rounds
  the exact sum (nearest, ties to even, overflow to infinity, gradual underflow). The sign of
  a zero is not modelled; \<open>-0.0 == 0.0\<close> in Python.
\<close>

definition py_isspace :: "char \<Rightarrow> bool" where
  "py_isspace c = ((of_char c :: nat) \<in> {9, 10, 11, 12, 13, 28, 29, 30, 31, 32, 133, 160})"

definition num_isspace :: "char \<Rightarrow> bool" where
  "num_isspace c = ((of_char c :: nat) \<in> {9, 10, 11, 12, 13, 32, 133, 160})"

definition strip_with :: "(char \<Rightarrow> bool) \<Rightarrow> string \<Rightarrow> string" where
  "strip_with sp s = rev (dropWhile sp (rev (dropWhile sp s)))"

definition py_strip :: "string \<Rightarrow> string" where
  "py_strip s = strip_with py_isspace s"

definition is_digit :: "char \<Rightarrow> bool" where
  "is_digit c = (48 \<le> (of_char c :: nat) \<and> (of_char c :: nat) \<le> 57)"

definition digit_val :: "char \<Rightarrow> nat" where
  "digit_val c = of_char c - 48"

fun digitpart :: "string \<Rightarrow> nat list option" where
  "digitpart [] = None"
| "digitpart [c] = (if is_digit c then Some [digit_val c] else None)"
| "digitpart (c # d # cs) =
     (if \<not> is_digit c then None
      else if d = CHR ''_'' then map_option (Cons (digit_val c)) (digitpart cs)
      else map_option (Cons (digit_val c)) (digitpart (d # cs)))"

definition int_of_digits :: "nat list \<Rightarrow> int" where
  "int_of_digits ds = foldl (\<lambda>a d. 10 * a + int d) 0 ds"

definition split_sign :: "string \<Rightarrow> bool \<times> string" where
  "split_sign s =
     (case s of
        [] \<Rightarrow> (False, [])
      | c # cs \<Rightarrow> if c = CHR ''-'' then (True, cs)
                 else if c = CHR ''+'' then (False, cs) else (False, s))"

definition signed_digits :: "string \<Rightarrow> int option" where
  "signed_digits s =
     (case split_sign s of (neg, r) \<Rightarrow>
        (case digitpart r of
           None \<Rightarrow> None
         | Some ds \<Rightarrow> Some (if neg then - int_of_digits ds else int_of_digits ds)))"

definition py_int :: "string \<Rightarrow> int option" where
  "py_int s = signed_digits (strip_with num_isspace s)"

datatype pyfloat = Finite rat | PosInf | NegInf | NaN

text \<open>
  Rounding to binary64: \<open>binary_exponent a\<close> is the integer \<open>e\<close> with
  \<open>2 ^ e \<le> a < 2 ^ (e + 1)\<close> for a positive \<open>a\<close>; below \<open>2 ^ - 1022\<close> the numbers are
  subnormal and spaced \<open>2 ^ - 1074\<close> apart. The value is rounded to the nearest multiple of
  the spacing, a tie going to the even multiple, and a result of \<open>2 ^ 1024\<close> or more is an
  infinity.
\<close>

function bit_length :: "int \<Rightarrow> int" where
  "bit_length n = (if n \<le> 0 then 0 else 1 + bit_length (n div 2))"
  by pat_completeness auto
termination
  by (relation "measure nat") auto

declare bit_length.simps [simp del]

definition pow2 :: "int \<Rightarrow> rat" where
  "pow2 e = (if 0 \<le> e then 2 ^ nat e else 1 / 2 ^ nat (- e))"

definition binary_exponent :: "rat \<Rightarrow> int" where
  "binary_exponent a =
     (if 1 \<le> a then bit_length \<lfloor>a\<rfloor> - 1
      else - bit_length (\<lceil>1 / a\<rceil> - 1))"

definition round_half_even :: "rat \<Rightarrow> int" where
  "round_half_even x =
     (let f = \<lfloor>x\<rfloor>; d = x - of_int f
      in if d < 1 / 2 then f
         else if 1 / 2 < d then f + 1
         else if even f then f else f + 1)"

definition round64 :: "rat \<Rightarrow> pyfloat" where
  "round64 q =
     (if q = 0 then Finite 0
      else let a = \<bar>q\<bar>;
               e = max (binary_exponent a) (- 1022);
               quantum = pow2 (e - 52);
               r = of_int (round_half_even (a / quantum)) * quantum
           in if pow2 1024 \<le> r then (if q < 0 then NegInf else PosInf)
              else Finite (if q < 0 then - r else r))"

fun fadd :: "pyfloat \<Rightarrow> pyfloat \<Rightarrow> pyfloat" where
  "fadd NaN y = NaN"
| "fadd x NaN = NaN"
| "fadd PosInf NegInf = NaN"
| "fadd NegInf PosInf = NaN"
| "fadd PosInf y = PosInf"
| "fadd x PosInf = PosInf"
| "fadd NegInf y = NegInf"
| "fadd x NegInf = NegInf"
| "fadd (Finite a) (Finite b) = round64 (a + b)"

definition parse_number :: "string \<Rightarrow> (nat list \<times> nat list) option" where
  "parse_number m =
     (let ip = takeWhile (\<lambda>c. c \<noteq> CHR ''.'') m;
          r = dropWhile (\<lambda>c. c \<noteq> CHR ''.'') m
      in if r = [] then map_option (\<lambda>ds. (ds, [])) (digitpart ip)
         else let fp = tl r
              in if ip = [] then map_option (\<lambda>ds. ([], ds)) (digitpart fp)
                 else if fp = [] then map_option (\<lambda>ds. (ds, [])) (digitpart ip)
                 else (case (digitpart ip, digitpart fp) of
                         (Some a, Some b) \<Rightarrow> Some (a, b)
                       | _ \<Rightarrow> None))"

definition mantissa :: "nat list \<times> nat list \<Rightarrow> rat" where
  "mantissa p = (case p of (a, b) \<Rightarrow> of_int (int_of_digits (a @ b)) / 10 ^ length b)"

definition scale10 :: "int \<Rightarrow> rat \<Rightarrow> rat" where
  "scale10 x q = (if 0 \<le> x then q * 10 ^ nat x else q / 10 ^ nat (- x))"

definition parse_floatnumber :: "string \<Rightarrow> rat option" where
  "parse_floatnumber s =
     (let m = takeWhile (\<lambda>c. c \<noteq> CHR ''e'' \<and> c \<noteq> CHR ''E'') s;
          r = dropWhile (\<lambda>c. c \<noteq> CHR ''e'' \<and> c \<noteq> CHR ''E'') s
      in case parse_number m of
           None \<Rightarrow> None
         | Some p \<Rightarrow>
             if r = [] then Some (mantissa p)
             else (case signed_digits (tl r) of
                     None \<Rightarrow> None
                   | Some x \<Rightarrow> Some (scale10 x (mantissa p))))"

definition lower_ascii :: "char \<Rightarrow> char" where
  "lower_ascii c =
     (case map_of (zip ''ABCDEFGHIJKLMNOPQRSTUVWXYZ'' ''abcdefghijklmnopqrstuvwxyz'') c of
        None \<Rightarrow> c
      | Some l \<Rightarrow> l)"

definition py_float :: "string \<Rightarrow> pyfloat option" where
  "py_float s =
     (case split_sign (strip_with num_isspace s) of (neg, body) \<Rightarrow>
        if map lower_ascii body = ''inf'' \<or> map lower_ascii body = ''infinity''
        then Some (if neg then NegInf else PosInf)
        else if map lower_ascii body = ''nan'' then Some NaN
        else map_option (\<lambda>q. round64 (if neg then - q else q)) (parse_floatnumber body))"

definition digit_char :: "nat \<Rightarrow> char" where
  "digit_char n = ''0123456789'' ! n"

fun digits_of :: "nat \<Rightarrow> string" where
  "digits_of n = (if n < 10 then [digit_char n] else digits_of (n div 10) @ [digit_char (n mod 10)])"

declare digits_of.simps [simp del]

definition py_str :: "int \<Rightarrow> string" where
  "py_str i = (if i < 0 then CHR ''-'' # digits_of (nat (- i)) else digits_of (nat i))"

fun split_on :: "char \<Rightarrow> string \<Rightarrow> string list" where
  "split_on d [] = [[]]"
| "split_on d (c # cs) =
     (if c = d then [] # split_on d cs
      else (case split_on d cs of [] \<Rightarrow> [[c]] | w # ws \<Rightarrow> (c # w) # ws))"

section \<open>Ledger client (utils/sheets-old2.py)\<close>

text \<open>
  The worksheet is the list of its rows, each row the list of its cell texts as the
  spreadsheet service returns them; row 1 is the header. The key of a row is the text of its
  first cell, the empty text when the row has no cell. \<open>worksheet.find(q, in_column=1)\<close>
  yields the first row whose key equals \<open>q\<close> or \<open>None\<close>; \<open>append_row\<close> adds the row
  after the last one, its cells holding the texts given (how the spreadsheet service reads
  a text entered as \<open>USER_ENTERED\<close> is outside the model). Every remote call may raise instead; what a call does is fixed by a
  \<open>ledger_env\<close>, which names the exception, if any, raised when the worksheet is opened
  (\<open>get_client\<close>, \<open>open_by_key\<close>, \<open>worksheet\<close>) and by each worksheet method.
\<close>

type_synonym worksheet = "string list list"

record ledger_env =
  open_fault :: "exn option"
  find_fault :: "exn option"
  row_values_fault :: "exn option"
  append_fault :: "exn option"
  get_all_fault :: "exn option"

definition no_ledger_fault :: ledger_env where
  "no_ledger_fault =
     \<lparr>open_fault = None, find_fault = None, row_values_fault = None,
      append_fault = None, get_all_fault = None\<rparr>"

definition row_key :: "string list \<Rightarrow> string" where
  "row_key row = (case row of [] \<Rightarrow> [] | c # cs \<Rightarrow> c)"

fun find_in_column1 :: "worksheet \<Rightarrow> string \<Rightarrow> nat option" where
  "find_in_column1 [] q = None"
| "find_in_column1 (row # rows) q =
     (if row_key row = q then Some 0 else map_option Suc (find_in_column1 rows q))"

definition row_values :: "worksheet \<Rightarrow> nat \<Rightarrow> string list" where
  "row_values ws i = (if i < length ws then ws ! i else [])"

definition safe_value :: "string option \<Rightarrow> string" where
  "safe_value val =
     (case val of
        None \<Rightarrow> ''-''
      | Some v \<Rightarrow> (let val_str = py_strip v in if val_str \<noteq> [] then val_str else ''-''))"

definition format_username :: "string option \<Rightarrow> string" where
  "format_username username =
     (let formatted_username = safe_value username
      in if formatted_username \<noteq> ''-'' \<and> \<not> (take 1 formatted_username = ''@'')
         then CHR ''@'' # formatted_username
         else formatted_username)"

definition row_data :: "string \<Rightarrow> string option \<Rightarrow> string option \<Rightarrow> string option \<Rightarrow> string option \<Rightarrow> string list" where
  "row_data partnercode nm contact username referral_source =
     [partnercode, safe_value nm, safe_value contact, format_username username,
      safe_value referral_source]"

text \<open>The body of the \<open>try\<close> block of \<open>_add_partnercode_sync\<close>, then the function with its handler.\<close>

definition add_partnercode_try ::
  "ledger_env \<Rightarrow> worksheet \<Rightarrow> string \<Rightarrow> string option \<Rightarrow> string option \<Rightarrow> string option \<Rightarrow> string option
     \<Rightarrow> exn + (bool \<times> worksheet)" where
  "add_partnercode_try lf ws partnercode nm contact username referral_source =
     (case open_fault lf of Some x \<Rightarrow> Inl x | None \<Rightarrow>
      case find_fault lf of Some x \<Rightarrow> Inl x | None \<Rightarrow>
      case find_in_column1 ws partnercode of
        Some cell \<Rightarrow> Inr (True, ws)
      | None \<Rightarrow>
          (case append_fault lf of
             Some x \<Rightarrow> Inl x
           | None \<Rightarrow> Inr (True, ws @ [row_data partnercode nm contact username referral_source])))"

definition add_partnercode ::
  "ledger_env \<Rightarrow> worksheet \<Rightarrow> string \<Rightarrow> string option \<Rightarrow> string option \<Rightarrow> string option \<Rightarrow> string option
     \<Rightarrow> bool \<times> worksheet" where
  "add_partnercode lf ws partnercode nm contact username referral_source =
     (case add_partnercode_try lf ws partnercode nm contact username referral_source of
        Inl x \<Rightarrow> (False, ws)
      | Inr res \<Rightarrow> res)"

text \<open>
  \<open>_get_balance_sync\<close> is defined twice in the module; the later definition (cells from
  index 4 on) is the one the name is bound to when \<open>get_balance\<close> runs. The loop adds
  \<open>float(value)\<close> to the balance and skips a cell on \<open>ValueError\<close>.
\<close>

fun sum_cells :: "pyfloat \<Rightarrow> string list \<Rightarrow> pyfloat" where
  "sum_cells balance [] = balance"
| "sum_cells balance (v # vs) =
     (case py_float v of
        None \<Rightarrow> sum_cells balance vs
      | Some x \<Rightarrow> sum_cells (fadd balance x) vs)"

definition get_balance_try :: "ledger_env \<Rightarrow> worksheet \<Rightarrow> string \<Rightarrow> exn + pyfloat" where
  "get_balance_try lf ws partnercode =
     (case open_fault lf of Some x \<Rightarrow> Inl x | None \<Rightarrow>
      case find_fault lf of Some x \<Rightarrow> Inl x | None \<Rightarrow>
      case find_in_column1 ws partnercode of
        None \<Rightarrow> Inr (Finite 0)
      | Some cell \<Rightarrow>
          (case row_values_fault lf of
             Some x \<Rightarrow> Inl x
           | None \<Rightarrow>
               (let rv = row_values ws cell
                in if rv = [] then Inr (Finite 0)
                   else Inr (sum_cells (Finite 0) (drop 4 rv)))))"

text \<open>
  The result of \<open>get_balance\<close> is a sum so that an escaping exception would be a value
  \<open>Inl\<close>; the handler \<open>except Exception\<close> turns every exception of the body into \<open>0.0\<close>.
\<close>

definition get_balance :: "ledger_env \<Rightarrow> worksheet \<Rightarrow> string \<Rightarrow> exn + pyfloat" where
  "get_balance lf ws partnercode =
     (case get_balance_try lf ws partnercode of
        Inl x \<Rightarrow> Inr (Finite 0)
      | Inr balance \<Rightarrow> Inr balance)"

text \<open>The rule of the specification: a comma is read as the decimal point before parsing.\<close>

definition normalize_comma :: "string \<Rightarrow> string" where
  "normalize_comma s = map (\<lambda>c. if c = CHR '','' then CHR ''.'' else c) s"

text \<open>
  Worksheet statistics. The line \<open>def _get_worksheet_info_sync() -> dict:\<close> is commented
  out in the module, so the block written for it continues the body of
  \<open>get_balance_async\<close> below its \<open>return\<close> and the name \<open>_get_worksheet_info_sync\<close> is
  never bound. \<open>module_names\<close> lists the names the module binds at top level;
  \<open>worksheet_info_block\<close> is what the orphaned block computes; \<open>get_worksheet_info\<close>
  looks the name up when it is called.
\<close>

definition module_names :: "string list" where
  "module_names =
     [''get_client'', ''_test_connection_sync'', ''test_connection'', ''test_connection_async'',
      ''_safe_value'', ''_add_partnercode_sync'', ''add_partnercode'', ''add_partnercode_async'',
      ''_get_balance_sync'', ''get_balance'', ''get_balance_async'', ''_get_balance_sync'',
      ''get_worksheet_info'', ''get_worksheet_info_async'']"

type_synonym info = "(string \<times> nat) list"

definition partnercode_count :: "worksheet \<Rightarrow> nat" where
  "partnercode_count all_values =
     length (filter (\<lambda>row. row \<noteq> [] \<and> row_key row \<noteq> []) (drop 1 all_values))"

definition worksheet_info_block :: "ledger_env \<Rightarrow> worksheet \<Rightarrow> info" where
  "worksheet_info_block lf ws =
     (case open_fault lf of Some x \<Rightarrow> [] | None \<Rightarrow>
      case get_all_fault lf of Some x \<Rightarrow> [] | None \<Rightarrow>
        [(''row_count'', length ws), (''partnercode_count'', partnercode_count ws)])"

definition get_worksheet_info :: "ledger_env \<Rightarrow> worksheet \<Rightarrow> exn + info" where
  "get_worksheet_info lf ws =
     (if ''_get_worksheet_info_sync'' \<in> set module_names
      then Inr (worksheet_info_block lf ws)
      else Inl (NameError ''_get_worksheet_info_sync''))"

section \<open>Admission workflow (handlers/admin.py)\<close>

text \<open>
  A handler receives the callback (sender id, sender username, callback data), reads and
  writes the user store and the ledger, and talks to the chat platform. The texts sent are
  abstracted to message kinds with their parameters. \<open>send_message\<close> is wrapped in its own
  \<open>try\<close> in the source, so its failure is swallowed; \<open>callback.answer\<close> and
  \<open>edit_text\<close> are not, so their failure reaches the handler's \<open>except\<close>, which answers
  once more. The administrator's id comes from the configuration.
\<close>

record callback =
  from_user_id :: int
  from_username :: "string option"
  data :: string

datatype message =
    NotAuthorized
  | UserNotFound
  | AlreadyApproved
  | ApprovedAlert
  | SheetsError
  | UpdateError
  | ApproveFailed
  | RejectedAlert
  | RejectFailed
  | ApprovedNotice
  | ApprovedReport int string string
  | ApprovedEdit string int
  | RejectedNotice
  | RejectedReport int string string
  | RejectedEdit string int

datatype event =
    Answer message
  | SendToUser int message
  | SendToAdminGroup message
  | EditText message

record tg_env =
  send_user_fault :: bool
  send_group_fault :: bool
  answer_fault :: bool
  edit_fault :: bool

record outcome =
  out_table :: users_table
  out_sheet :: worksheet
  out_events :: "event list"
  out_raised :: bool

definition is_admin :: "int \<Rightarrow> int \<Rightarrow> bool" where
  "is_admin admin_user_id user_id = (user_id = admin_user_id)"

definition callback_user_id :: "callback \<Rightarrow> exn + int" where
  "callback_user_id cb =
     (case split_on (CHR ''_'') (data cb) of
        a # b # rest \<Rightarrow> (case py_int b of None \<Rightarrow> Inl ValueError | Some i \<Rightarrow> Inr i)
      | _ \<Rightarrow> Inl IndexError)"

text \<open>\<open>notify\<close>: a send inside its own \<open>try\<close>. \<open>finish\<close>: the calls that end a path of the
  \<open>try\<close> block, in order, each of which may raise; the flag tells whether one did.\<close>

definition notify :: "bool \<Rightarrow> event \<Rightarrow> event list" where
  "notify fault ev = (if fault then [] else [ev])"

fun finish :: "tg_env \<Rightarrow> event list \<Rightarrow> event list \<times> bool" where
  "finish tf [] = ([], False)"
| "finish tf (ev # evs) =
     (if (case ev of Answer m \<Rightarrow> answer_fault tf | EditText m \<Rightarrow> edit_fault tf | _ \<Rightarrow> False)
      then ([], True)
      else (case finish tf evs of (done, raised) \<Rightarrow> (ev # done, raised)))"

text \<open>The handler's \<open>except Exception\<close>: answer with the failure text; if that raises too,
  the exception leaves the handler.\<close>

definition handle_raised :: "tg_env \<Rightarrow> message \<Rightarrow> users_table \<Rightarrow> worksheet \<Rightarrow> event list \<Rightarrow> bool \<Rightarrow> outcome" where
  "handle_raised tf failure t ws evs raised =
     (if \<not> raised then \<lparr>out_table = t, out_sheet = ws, out_events = evs, out_raised = False\<rparr>
      else if answer_fault tf
      then \<lparr>out_table = t, out_sheet = ws, out_events = evs, out_raised = True\<rparr>
      else \<lparr>out_table = t, out_sheet = ws, out_events = evs @ [Answer failure], out_raised = False\<rparr>)"

definition ending :: "tg_env \<Rightarrow> message \<Rightarrow> users_table \<Rightarrow> worksheet \<Rightarrow> event list \<Rightarrow> event list \<Rightarrow> outcome" where
  "ending tf failure t ws sent last_calls =
     (case finish tf last_calls of
        (done, raised) \<Rightarrow> handle_raised tf failure t ws (sent @ done) raised)"

definition approve_user ::
  "int \<Rightarrow> db_env \<Rightarrow> db_env \<Rightarrow> ledger_env \<Rightarrow> tg_env \<Rightarrow> callback \<Rightarrow> users_table \<Rightarrow> worksheet \<Rightarrow> outcome" where
  "approve_user admin_user_id e_get e_upd lf tf cb t ws =
     (if \<not> is_admin admin_user_id (from_user_id cb)
      then ending tf ApproveFailed t ws [] [Answer NotAuthorized]
      else case callback_user_id cb of
        Inl x \<Rightarrow> handle_raised tf ApproveFailed t ws [] True
      | Inr user_id \<Rightarrow>
         (case get_user e_get t user_id of
            Inl x \<Rightarrow> handle_raised tf ApproveFailed t ws [] True
          | Inr None \<Rightarrow> ending tf ApproveFailed t ws [] [Answer UserNotFound]
          | Inr (Some user) \<Rightarrow>
             if approved user then ending tf ApproveFailed t ws [] [Answer AlreadyApproved]
             else (case update_user_approval e_upd t user_id True of
                (success, t') \<Rightarrow>
                  if \<not> success then ending tf ApproveFailed t' ws [] [Answer UpdateError]
                  else (case add_partnercode lf ws (py_str user_id) (Some (name user))
                               (Some (phone user)) (from_username cb) None of
                    (sheets_success, ws') \<Rightarrow>
                      if \<not> sheets_success then ending tf ApproveFailed t' ws' [] [Answer SheetsError]
                      else ending tf ApproveFailed t' ws'
                             (notify (send_user_fault tf) (SendToUser user_id ApprovedNotice) @
                              notify (send_group_fault tf)
                                (SendToAdminGroup (ApprovedReport user_id (name user) (phone user))))
                             [Answer ApprovedAlert, EditText (ApprovedEdit (name user) user_id)]))))"

definition reject_user ::
  "int \<Rightarrow> db_env \<Rightarrow> tg_env \<Rightarrow> callback \<Rightarrow> users_table \<Rightarrow> worksheet \<Rightarrow> outcome" where
  "reject_user admin_user_id e_get tf cb t ws =
     (if \<not> is_admin admin_user_id (from_user_id cb)
      then ending tf RejectFailed t ws [] [Answer NotAuthorized]
      else case callback_user_id cb of
        Inl x \<Rightarrow> handle_raised tf RejectFailed t ws [] True
      | Inr user_id \<Rightarrow>
         (case get_user e_get t user_id of
            Inl x \<Rightarrow> handle_raised tf RejectFailed t ws [] True
          | Inr None \<Rightarrow> ending tf RejectFailed t ws [] [Answer UserNotFound]
          | Inr (Some user) \<Rightarrow>
              ending tf RejectFailed t ws
                (notify (send_user_fault tf) (SendToUser user_id RejectedNotice) @
                 notify (send_group_fault tf)
                   (SendToAdminGroup (RejectedReport user_id (name user) (phone user))))
                [Answer RejectedAlert, EditText (RejectedEdit (name user) user_id)]))"

text \<open>Any number of rejections in sequence, each with its own surroundings and callback.\<close>

definition reject_many ::
  "int \<Rightarrow> worksheet \<Rightarrow> (db_env \<times> tg_env \<times> callback) list \<Rightarrow> users_table \<Rightarrow> users_table" where
  "reject_many admin_user_id ws calls t =
     foldl (\<lambda>t' call. case call of (e, tf, cb) \<Rightarrow> out_table (reject_user admin_user_id e tf cb t' ws))
       t calls"

section \<open>Evaluation rules\<close>

lemma floor_rat_numeral: "\<lfloor>numeral a / numeral b :: rat\<rfloor> = numeral a div numeral b"
  using floor_divide_of_int_eq [of "numeral a" "numeral b", where ?'a = rat] by simp

lemma ceiling_rat_numeral:
  "\<lceil>numeral a / numeral b :: rat\<rceil> = - ((- numeral a) div numeral b)"
  using floor_divide_of_int_eq [of "- numeral a" "numeral b", where ?'a = rat]
  by (simp add: ceiling_def)

lemmas round_eval = binary_exponent_def pow2_def bit_length.simps floor_rat_numeral
  ceiling_rat_numeral

lemmas py_eval = py_float_def split_sign_def strip_with_def num_isspace_def lower_ascii_def
  parse_floatnumber_def parse_number_def is_digit_def digit_val_def mantissa_def int_of_digits_def
  signed_digits_def py_int_def py_str_def digit_char_def scale10_def py_strip_def py_isspace_def
  digits_of.simps

lemma round64_200_75: "round64 (803 / 4) = Finite (803 / 4)"
  unfolding round64_def round_half_even_def Let_def by (simp add: round_eval)

lemma round64_100_5: "round64 (201 / 2) = Finite (201 / 2)"
  unfolding round64_def round_half_even_def Let_def by (simp add: round_eval)

lemma float_200_75: "py_float ''200.75'' = Some (Finite (803 / 4))"
  by (simp add: py_eval round64_200_75)

lemma float_100_50: "py_float ''100.50'' = Some (Finite (201 / 2))"
  by (simp add: py_eval round64_100_5)

lemma float_comma: "py_float ''100,50'' = None"
  by (simp add: py_eval)

lemma float_text: "py_float ''text'' = None"
  by (simp add: py_eval)

lemma float_empty: "py_float [] = None"
  by (simp add: py_eval)

section \<open>Properties of the user store\<close>

text \<open>
  The operations other than a creation with the optional flag set keep the invariant of the
  data model.
\<close>

lemma save_user_unapproved_ok:
  "table_ok t \<Longrightarrow> table_ok (snd (save_user e t uid nm ph False))"
  by (auto simp: save_user_def table_ok_def row_ok_def ran_def split: if_splits)

lemma update_user_approval_ok:
  "table_ok t \<Longrightarrow> table_ok (snd (update_user_approval e t uid appr))"
  by (auto simp: update_user_approval_def table_ok_def row_ok_def ran_def Let_def
           split: if_splits option.splits)

lemma delete_user_ok:
  "table_ok t \<Longrightarrow> table_ok (snd (delete_user e t uid))"
  by (auto simp: delete_user_def table_ok_def row_ok_def ran_def split: if_splits)

text \<open>
  C3. The claim asks that every store operation keeps \<open>approved_at\<close> set exactly for the
  approved rows, for every argument including the optional \<open>approved\<close> flag of
  \<open>save_user\<close>. The code does not: \<open>save_user(12346, "User 2", "+2222222222", True)\<close> on an empty
  table (the call made by the repository's own tests) stores a row that is approved and whose
  \<open>approved_at\<close> is null, since the INSERT never writes that column, while
  \<open>update_user_approval\<close> stamps it.
\<close>

theorem save_user_approved_without_timestamp:
  "snd (save_user \<lparr>db_fault = False, utc_now = 0, tz_offset = 0\<rparr> Map.empty
          12346 ''User 2'' ''+2222222222'' True) 12346
     = Some \<lparr>name = ''User 2'', phone = ''+2222222222'', approved = True,
             created_at = 0, approved_at = None\<rparr>"
  by (simp add: save_user_def current_timestamp_def)

text \<open>
  C4. A second \<open>save_user\<close> with an id that is already in the table returns \<open>False\<close>
  (a result, not an exception) and leaves the table, hence every field of the existing
  row (name, phone, approved, created_at, approved_at), as it was; this holds for every
  argument of the second call and also when the storage layer fails during it.
\<close>

theorem save_user_existing_rejected:
  "t uid = Some r \<Longrightarrow>
     save_user e t uid nm ph appr = (False, t) \<and>
     snd (save_user e t uid nm ph appr) uid = Some r"
  by (simp add: save_user_def)

theorem save_user_existing_rejected_witness:
  "save_user \<lparr>db_fault = False, utc_now = 5, tz_offset = 0\<rparr>
       [12345 \<mapsto> \<lparr>name = ''Test User'', phone = ''+1234567890'', approved = False,
                   created_at = 0, approved_at = None\<rparr>]
       12345 ''Another User'' ''+0987654321'' True
     = (False, [12345 \<mapsto> \<lparr>name = ''Test User'', phone = ''+1234567890'', approved = False,
                   created_at = 0, approved_at = None\<rparr>])"
  using save_user_existing_rejected
     [of "[12345 \<mapsto> \<lparr>name = ''Test User'', phone = ''+1234567890'', approved = False,
                   created_at = 0, approved_at = None\<rparr>]" 12345
         "\<lparr>name = ''Test User'', phone = ''+1234567890'', approved = False,
                   created_at = 0, approved_at = None\<rparr>"
         "\<lparr>db_fault = False, utc_now = 5, tz_offset = 0\<rparr>" "''Another User''" "''+0987654321''" True]
  by simp

text \<open>
  What an approval stores, and when its timestamp is not before the creation timestamp:
  the host's offset from UTC must not be negative.
\<close>

lemma approval_stamp:
  "t uid = Some r \<Longrightarrow> \<not> db_fault e \<Longrightarrow>
     get_user e (snd (update_user_approval e t uid True)) uid
       = Inr (Some (r\<lparr>approved := True, approved_at := Some (datetime_now e)\<rparr>))"
  by (simp add: update_user_approval_def get_user_def)

lemma approval_stamp_order:
  "t uid = Some r \<Longrightarrow> \<not> db_fault e \<Longrightarrow> created_at r \<le> utc_now e \<Longrightarrow> 0 \<le> tz_offset e \<Longrightarrow>
     \<exists>r' a. get_user e (snd (update_user_approval e t uid True)) uid = Inr (Some r') \<and>
            approved r' \<and> approved_at r' = Some a \<and> created_at r' \<le> a"
  by (simp add: update_user_approval_def get_user_def datetime_now_def)

text \<open>
  C6. The claim asks \<open>approved_at \<ge> created_at\<close> after an approval. The two columns are
  read from different clocks (UTC for \<open>created_at\<close>, the host's local time for
  \<open>approved_at\<close>). On a host five hours behind UTC, a user created at
  2024-01-02 02:00:00 UTC and approved one minute later gets
  \<open>created_at = 2024-01-02 02:00:00\<close> and \<open>approved_at = 2024-01-01T21:01:00\<close>:
  approved and stamped, but with a stamp before the creation stamp.
\<close>

theorem approved_at_behind_created_at:
  "get_user \<lparr>db_fault = False, utc_now = 1704160860000000, tz_offset = - 18000000000\<rparr>
     (snd (update_user_approval
            \<lparr>db_fault = False, utc_now = 1704160860000000, tz_offset = - 18000000000\<rparr>
            (snd (save_user \<lparr>db_fault = False, utc_now = 1704160800000000, tz_offset = - 18000000000\<rparr>
                    Map.empty 12345 ''Test User'' ''+1234567890'' False))
            12345 True))
     12345
   = Inr (Some \<lparr>name = ''Test User'', phone = ''+1234567890'', approved = True,
           created_at = 1704160800000000, approved_at = Some 1704142860000000\<rparr>)
   \<and> (1704142860000000 :: int) < 1704160800000000"
  by (simp add: save_user_def update_user_approval_def get_user_def current_timestamp_def
        datetime_now_def)




section \<open>Properties of the ledger client\<close>

text \<open>
  C1. The claim asks that a cell counts towards the balance exactly when it parses as a
  float after a comma has been read as the decimal point, so that the cells
  \<open>"100,50", "text", "200.75", ""\<close> from column 5 on give 301.25. The code passes the cell to
  \<open>float\<close> unchanged: \<open>"100,50"\<close> is skipped although its normalised form parses to 100.5,
  and the balance of that row is 200.75.
\<close>

theorem get_balance_comma_cell_skipped:
  "get_balance no_ledger_fault
     [[''partnercode'', ''name'', ''contact'', ''username''],
      [''42'', ''Ann'', ''+100'', ''@ann'', ''100,50'', ''text'', ''200.75'', []]] ''42''
     = Inr (Finite (803 / 4)) \<and>
   py_float ''100,50'' = None \<and>
   py_float (normalize_comma ''100,50'') = Some (Finite (201 / 2))"
  by (simp add: get_balance_def get_balance_try_def no_ledger_fault_def row_key_def
        row_values_def normalize_comma_def float_200_75 float_100_50 float_comma float_text
        float_empty round64_200_75)

text \<open>
  C5. \<open>get_balance\<close> always returns a value (no exception leaves it); the value is
  \<open>0.0\<close> when the id is not in the key column and when opening the worksheet, the search
  or the row read fails.
\<close>

theorem get_balance_defaults:
  "(\<exists>b. get_balance lf ws pc = Inr b) \<and>
   (find_in_column1 ws pc = None \<longrightarrow> get_balance lf ws pc = Inr (Finite 0)) \<and>
   (open_fault lf \<noteq> None \<or> find_fault lf \<noteq> None \<or> row_values_fault lf \<noteq> None
      \<longrightarrow> get_balance lf ws pc = Inr (Finite 0))"
  by (auto simp: get_balance_def get_balance_try_def split: option.splits sum.splits)

theorem get_balance_defaults_witness:
  "get_balance no_ledger_fault [[''partnercode'', ''name'', ''contact'', ''username'', ''amount1''],
        [''12345'', ''Ann'', ''+100'', ''@ann'', ''100.50'']] ''99999''
     = Inr (Finite 0) \<and>
   get_balance (no_ledger_fault\<lparr>open_fault := Some APIError\<rparr>)
       [[''partnercode'', ''name'', ''contact'', ''username'', ''amount1''],
        [''12345'', ''Ann'', ''+100'', ''@ann'', ''100.50'']] ''12345''
     = Inr (Finite 0)"
proof -
  have absent: "find_in_column1 [[''partnercode'', ''name'', ''contact'', ''username'', ''amount1''],
        [''12345'', ''Ann'', ''+100'', ''@ann'', ''100.50'']] ''99999'' = None"
    by (simp add: row_key_def)
  have fault: "open_fault (no_ledger_fault\<lparr>open_fault := Some APIError\<rparr>) \<noteq> None"
    by simp
  from get_balance_defaults [of no_ledger_fault
         "[[''partnercode'', ''name'', ''contact'', ''username'', ''amount1''],
        [''12345'', ''Ann'', ''+100'', ''@ann'', ''100.50'']]" "''99999''"] absent
    get_balance_defaults [of "no_ledger_fault\<lparr>open_fault := Some APIError\<rparr>"
         "[[''partnercode'', ''name'', ''contact'', ''username'', ''amount1''],
        [''12345'', ''Ann'', ''+100'', ''@ann'', ''100.50'']]" "''12345''"] fault
  show ?thesis by blast
qed

lemma find_none_iff:
  "find_in_column1 ws q = None \<longleftrightarrow> filter (\<lambda>row. row_key row = q) ws = []"
  by (induction ws) auto

text \<open>
  C7. With the ledger reachable, \<open>add_partnercode\<close> for a key that is already in the key
  column returns \<open>True\<close> and leaves the worksheet as it is; two calls in sequence with the
  same key both return \<open>True\<close>, the second appends nothing, and a worksheet that had at
  most one row for the key has exactly one afterwards.
\<close>

theorem add_partnercode_idempotent:
  assumes "open_fault lf1 = None" "find_fault lf1 = None" "append_fault lf1 = None"
      and "open_fault lf2 = None" "find_fault lf2 = None"
  shows "(find_in_column1 ws pc \<noteq> None \<longrightarrow> add_partnercode lf1 ws pc n c u r = (True, ws)) \<and>
         fst (add_partnercode lf1 ws pc n c u r) \<and>
         add_partnercode lf2 (snd (add_partnercode lf1 ws pc n c u r)) pc n' c' u' r'
           = (True, snd (add_partnercode lf1 ws pc n c u r)) \<and>
         (length (filter (\<lambda>row. row_key row = pc) ws) \<le> 1 \<longrightarrow>
            length (filter (\<lambda>row. row_key row = pc)
                      (snd (add_partnercode lf2 (snd (add_partnercode lf1 ws pc n c u r)) pc n' c' u' r')))
              = 1)"
proof (cases "find_in_column1 ws pc")
  case None
  then have "filter (\<lambda>row. row_key row = pc) ws = []" by (simp add: find_none_iff)
  moreover have "find_in_column1 (ws @ [row_data pc n c u r]) pc \<noteq> None"
    by (simp add: find_none_iff row_data_def row_key_def)
  ultimately show ?thesis using None assms
    by (auto simp: add_partnercode_def add_partnercode_try_def row_data_def row_key_def)
next
  case (Some i)
  then have "filter (\<lambda>row. row_key row = pc) ws \<noteq> []" using find_none_iff[of ws pc] by simp
  then have "0 < length (filter (\<lambda>row. row_key row = pc) ws)" by blast
  then have "length (filter (\<lambda>row. row_key row = pc) ws) \<le> 1 \<longrightarrow>
             length (filter (\<lambda>row. row_key row = pc) ws) = 1" by linarith
  then show ?thesis using Some assms
    by (simp add: add_partnercode_def add_partnercode_try_def)
qed

theorem add_partnercode_idempotent_witness:
  "add_partnercode no_ledger_fault [[''partnercode''], [''12345'', ''Test User'']] ''12345''
       None None None None
      = (True, [[''partnercode''], [''12345'', ''Test User'']]) \<and>
   length (filter (\<lambda>row. row_key row = ''67890'')
      (snd (add_partnercode no_ledger_fault
              (snd (add_partnercode no_ledger_fault [[''partnercode'']] ''67890'' None None None None))
              ''67890'' None None None None))) = 1"
proof -
  have nf: "open_fault no_ledger_fault = None" "find_fault no_ledger_fault = None"
      "append_fault no_ledger_fault = None"
    by (simp_all add: no_ledger_fault_def)
  have found: "find_in_column1 [[''partnercode''], [''12345'', ''Test User'']] ''12345'' \<noteq> None"
    by (simp add: row_key_def)
  have fresh: "length (filter (\<lambda>row. row_key row = ''67890'') [[''partnercode'']]) \<le> 1"
    by (simp add: row_key_def)
  from add_partnercode_idempotent [OF nf nf(1,2),
         of "[[''partnercode''], [''12345'', ''Test User'']]" "''12345''"
         None None None None None None None None] found
    add_partnercode_idempotent [OF nf nf(1,2), of "[[''partnercode'']]" "''67890''"
         None None None None None None None None] fresh
  show ?thesis by blast
qed

text \<open>
  The block written for \<open>_get_worksheet_info_sync\<close> computes the two counts of the
  specification: all rows, and the rows after the header whose key is not empty.
\<close>

lemma worksheet_info_block_counts:
  "open_fault lf = None \<Longrightarrow> get_all_fault lf = None \<Longrightarrow>
     worksheet_info_block lf ws =
       [(''row_count'', length ws),
        (''partnercode_count'', length (filter (\<lambda>row. row_key row \<noteq> []) (tl ws)))]"
  by (auto simp: worksheet_info_block_def partnercode_count_def drop_Suc row_key_def
           intro!: filter_cong split: list.splits)

text \<open>
  C8. The claim asks that \<open>get_worksheet_info\<close> returns the row count and the partner
  count of the worksheet. The function calls \<open>_get_worksheet_info_sync\<close>, a name the module
  never binds, so for every worksheet the call ends in \<open>NameError\<close>.
\<close>

theorem get_worksheet_info_unbound:
  "get_worksheet_info lf ws = Inl (NameError ''_get_worksheet_info_sync'')"
  by (simp add: get_worksheet_info_def module_names_def)

section \<open>Properties of the admission workflow\<close>

lemma ending_table: "out_table (ending tf f t ws sent fin) = t"
  by (simp add: ending_def handle_raised_def split: prod.splits)

lemma ending_sheet: "out_sheet (ending tf f t ws sent fin) = ws"
  by (simp add: ending_def handle_raised_def split: prod.splits)

lemma handle_raised_table: "out_table (handle_raised tf f t ws evs b) = t"
  by (simp add: handle_raised_def)

lemma handle_raised_sheet: "out_sheet (handle_raised tf f t ws evs b) = ws"
  by (simp add: handle_raised_def)

lemma reject_user_table: "out_table (reject_user a e tf cb t ws) = t"
  by (simp add: reject_user_def ending_table handle_raised_table split: sum.splits option.splits)

lemma reject_user_sheet: "out_sheet (reject_user a e tf cb t ws) = ws"
  by (simp add: reject_user_def ending_sheet handle_raised_sheet split: sum.splits option.splits)

lemma reject_many_table: "reject_many a ws calls t = t"
  unfolding reject_many_def by (induction calls arbitrary: t) (auto simp: reject_user_table)

lemma reject_user_events:
  assumes "is_admin a (from_user_id cb)" "callback_user_id cb = Inr uid" "t uid = Some r"
    "\<not> db_fault e"
    "\<not> send_user_fault tf" "\<not> send_group_fault tf" "\<not> answer_fault tf" "\<not> edit_fault tf"
  shows "out_events (reject_user a e tf cb t ws) =
           [SendToUser uid RejectedNotice,
            SendToAdminGroup (RejectedReport uid (name r) (phone r)),
            Answer RejectedAlert, EditText (RejectedEdit (name r) uid)] \<and>
         \<not> out_raised (reject_user a e tf cb t ws)"
  using assms
  by (simp add: reject_user_def get_user_def ending_def handle_raised_def notify_def)

lemma approve_user_table:
  assumes "is_admin a (from_user_id cb)" "callback_user_id cb = Inr uid" "t uid = Some r"
    "\<not> approved r" "\<not> db_fault e_get" "\<not> db_fault e_upd"
  shows "out_table (approve_user a e_get e_upd lf tf cb t ws)
           = t(uid \<mapsto> r\<lparr>approved := True, approved_at := Some (datetime_now e_upd)\<rparr>)"
  using assms
  by (simp add: approve_user_def get_user_def update_user_approval_def ending_table
           split: prod.splits)

lemma approve_user_sheet:
  assumes "is_admin a (from_user_id cb)" "callback_user_id cb = Inr uid" "t uid = Some r"
    "\<not> approved r" "\<not> db_fault e_get" "\<not> db_fault e_upd"
  shows "out_sheet (approve_user a e_get e_upd lf tf cb t ws)
           = snd (add_partnercode lf ws (py_str uid) (Some (name r)) (Some (phone r))
                    (from_username cb) None)"
  using assms
  by (simp add: approve_user_def get_user_def update_user_approval_def ending_sheet
           split: prod.splits)

lemma cb_approve:
  "callback_user_id \<lparr>from_user_id = a, from_username = u, data = ''approve_12345''\<rparr> = Inr 12345"
  by (simp add: callback_user_id_def py_eval)

lemma cb_reject:
  "callback_user_id \<lparr>from_user_id = a, from_username = u, data = ''reject_12345''\<rparr> = Inr 12345"
  by (simp add: callback_user_id_def py_eval)

lemma str_12345: "py_str 12345 = ''12345''"
  by (simp add: py_eval)

text \<open>The placeholder and the user name column, in general.\<close>

lemma safe_value_placeholder:
  "safe_value None = ''-''" "py_strip v = [] \<Longrightarrow> safe_value (Some v) = ''-''"
  "py_strip v \<noteq> [] \<Longrightarrow> safe_value (Some v) = py_strip v"
  by (simp_all add: safe_value_def)

lemma format_username_cases:
  "format_username None = ''-''"
  "py_strip v = [] \<Longrightarrow> format_username (Some v) = ''-''"
  "py_strip v \<noteq> [] \<Longrightarrow> py_strip v \<noteq> ''-'' \<Longrightarrow>
     format_username (Some v) =
       (if take 1 (py_strip v) = ''@'' then py_strip v else CHR ''@'' # py_strip v)"
  by (simp_all add: format_username_def safe_value_def)

lemma row_testuser:
  "u = ''testuser'' \<or> u = ''@testuser'' \<Longrightarrow>
   row_data ''12345'' (Some ''Test User'') (Some ''+1234567890'') (Some u) None
     = [''12345'', ''Test User'', ''+1234567890'', ''@testuser'', ''-'']"
  by (auto simp: row_data_def safe_value_def format_username_def py_eval)

text \<open>
  The row that an approval appends: its user name column is made from the user name of the
  sender of the callback, who is the administrator checked by \<open>is_admin\<close>.
\<close>

lemma approve_user_appends:
  assumes "is_admin a (from_user_id cb)" "callback_user_id cb = Inr uid" "t uid = Some r"
    "\<not> approved r" "\<not> db_fault e_get" "\<not> db_fault e_upd"
    "open_fault lf = None" "find_fault lf = None" "append_fault lf = None"
    "find_in_column1 ws (py_str uid) = None"
  shows "out_sheet (approve_user a e_get e_upd lf tf cb t ws)
           = ws @ [[py_str uid, safe_value (Some (name r)), safe_value (Some (phone r)),
                    format_username (from_username cb), ''-'']]"
  using assms approve_user_sheet [where a = a and cb = cb and uid = uid and t = t and r = r
      and e_get = e_get and e_upd = e_upd and lf = lf and tf = tf and ws = ws]
  by (simp add: add_partnercode_def add_partnercode_try_def row_data_def safe_value_def)

text \<open>
  C2. The claim asks that after user 12345 (user name "testuser") has registered with name
  "Test User" and phone "+1234567890" and has been approved, the appended row is
  \<open>["12345", "Test User", "+1234567890", "@testuser", "-"]\<close>. The store keeps no user
  name, and \<open>approve_user\<close> passes \<open>callback.from_user.username\<close>, the user name of the
  approving administrator. With an administrator named "boss", store and ledger reachable
  and no row for "12345" yet, the appended row carries "@boss".
\<close>

theorem approval_writes_approver_username:
  "out_sheet (approve_user 1454702347
       \<lparr>db_fault = False, utc_now = 60000000, tz_offset = 0\<rparr>
       \<lparr>db_fault = False, utc_now = 60000000, tz_offset = 0\<rparr>
       no_ledger_fault
       \<lparr>send_user_fault = False, send_group_fault = False, answer_fault = False, edit_fault = False\<rparr>
       \<lparr>from_user_id = 1454702347, from_username = Some ''boss'', data = ''approve_12345''\<rparr>
       (snd (save_user \<lparr>db_fault = False, utc_now = 0, tz_offset = 0\<rparr> Map.empty
               12345 ''Test User'' ''+1234567890'' False))
       [[''partnercode'', ''name'', ''contact'', ''username'', ''referral'']])
     = [[''partnercode'', ''name'', ''contact'', ''username'', ''referral''],
        [''12345'', ''Test User'', ''+1234567890'', ''@boss'', ''-'']]"
proof -
  let ?e = "\<lparr>db_fault = False, utc_now = 60000000, tz_offset = 0\<rparr>"
  let ?cb = "\<lparr>from_user_id = 1454702347, from_username = Some ''boss'', data = ''approve_12345''\<rparr>"
  let ?r = "\<lparr>name = ''Test User'', phone = ''+1234567890'', approved = False,
             created_at = 0, approved_at = None\<rparr>"
  let ?t = "snd (save_user \<lparr>db_fault = False, utc_now = 0, tz_offset = 0\<rparr> Map.empty
               12345 ''Test User'' ''+1234567890'' False)"
  let ?ws = "[[''partnercode'', ''name'', ''contact'', ''username'', ''referral'']]"
  have t: "?t 12345 = Some ?r" by (simp add: save_user_def current_timestamp_def)
  have adm: "is_admin 1454702347 (from_user_id ?cb)" by (simp add: is_admin_def)
  have nf: "open_fault no_ledger_fault = None" "find_fault no_ledger_fault = None"
      "append_fault no_ledger_fault = None"
    by (simp_all add: no_ledger_fault_def)
  have absent: "find_in_column1 ?ws (py_str 12345) = None"
    by (simp add: str_12345 row_key_def)
  have cols: "safe_value (Some ''Test User'') = ''Test User''"
      "safe_value (Some ''+1234567890'') = ''+1234567890''"
      "format_username (Some ''boss'') = ''@boss''"
    by (simp_all add: safe_value_def format_username_def py_eval)
  have cb: "callback_user_id ?cb = Inr 12345" by (rule cb_approve)
  from approve_user_appends [where a = 1454702347 and cb = ?cb and uid = 12345 and t = ?t
      and r = ?r and e_get = ?e and e_upd = ?e and lf = no_ledger_fault and ws = ?ws]
    adm cb t nf absent
  show ?thesis by (simp add: str_12345 cols)
qed

text \<open>
  C9. \<open>reject_user\<close> never writes: after it the user table, hence every field of the
  record, and the worksheet are as before, whoever calls it and whatever fails; for an
  existing record and the administrator it emits the two notifications, the alert and the
  edited message and nothing else. Any number of rejections in sequence leaves the table as
  it was, and an unapproved record that was rejected is approved by a later
  \<open>approve_user\<close> without a new registration.
\<close>

theorem reject_user_keeps_store:
  "out_table (reject_user a e tf cb t ws) = t \<and>
   out_sheet (reject_user a e tf cb t ws) = ws \<and>
   reject_many a ws calls t = t \<and>
   (is_admin a (from_user_id cb) \<and> callback_user_id cb = Inr uid \<and> t uid = Some r \<and>
    \<not> db_fault e \<and> \<not> send_user_fault tf \<and> \<not> send_group_fault tf \<and>
    \<not> answer_fault tf \<and> \<not> edit_fault tf
      \<longrightarrow> out_events (reject_user a e tf cb t ws) =
            [SendToUser uid RejectedNotice,
             SendToAdminGroup (RejectedReport uid (name r) (phone r)),
             Answer RejectedAlert, EditText (RejectedEdit (name r) uid)]) \<and>
   (is_admin a (from_user_id cb') \<and> callback_user_id cb' = Inr uid \<and> t uid = Some r \<and>
    \<not> approved r \<and> \<not> db_fault e_get \<and> \<not> db_fault e_upd
      \<longrightarrow> out_table (approve_user a e_get e_upd lf tf' cb' (reject_many a ws calls t) ws') uid
            = Some (r\<lparr>approved := True, approved_at := Some (datetime_now e_upd)\<rparr>))"
proof -
  have "is_admin a (from_user_id cb') \<Longrightarrow> callback_user_id cb' = Inr uid \<Longrightarrow> t uid = Some r \<Longrightarrow>
        \<not> approved r \<Longrightarrow> \<not> db_fault e_get \<Longrightarrow> \<not> db_fault e_upd \<Longrightarrow>
        out_table (approve_user a e_get e_upd lf tf' cb' (reject_many a ws calls t) ws') uid
            = Some (r\<lparr>approved := True, approved_at := Some (datetime_now e_upd)\<rparr>)"
    by (simp add: reject_many_table approve_user_table)
  then show ?thesis
    using reject_user_events [of a cb uid t r e tf ws]
    by (simp add: reject_user_table reject_user_sheet reject_many_table)
qed

theorem reject_user_keeps_store_witness:
  "out_events (reject_user 1454702347 \<lparr>db_fault = False, utc_now = 0, tz_offset = 0\<rparr>
       \<lparr>send_user_fault = False, send_group_fault = False, answer_fault = False, edit_fault = False\<rparr>
       \<lparr>from_user_id = 1454702347, from_username = None, data = ''reject_12345''\<rparr>
       [12345 \<mapsto> \<lparr>name = ''Test User'', phone = ''+1234567890'', approved = False,
                   created_at = 0, approved_at = None\<rparr>] [])
     = [SendToUser 12345 RejectedNotice,
        SendToAdminGroup (RejectedReport 12345 ''Test User'' ''+1234567890''),
        Answer RejectedAlert, EditText (RejectedEdit ''Test User'' 12345)] \<and>
   out_table (approve_user 1454702347 \<lparr>db_fault = False, utc_now = 0, tz_offset = 0\<rparr>
       \<lparr>db_fault = False, utc_now = 0, tz_offset = 0\<rparr> no_ledger_fault
       \<lparr>send_user_fault = False, send_group_fault = False, answer_fault = False, edit_fault = False\<rparr>
       \<lparr>from_user_id = 1454702347, from_username = None, data = ''approve_12345''\<rparr>
       (reject_many 1454702347 []
          [(\<lparr>db_fault = False, utc_now = 0, tz_offset = 0\<rparr>,
            \<lparr>send_user_fault = False, send_group_fault = False, answer_fault = False, edit_fault = False\<rparr>,
            \<lparr>from_user_id = 1454702347, from_username = None, data = ''reject_12345''\<rparr>),
           (\<lparr>db_fault = False, utc_now = 0, tz_offset = 0\<rparr>,
            \<lparr>send_user_fault = False, send_group_fault = False, answer_fault = False, edit_fault = False\<rparr>,
            \<lparr>from_user_id = 1454702347, from_username = None, data = ''reject_12345''\<rparr>)]
          [12345 \<mapsto> \<lparr>name = ''Test User'', phone = ''+1234567890'', approved = False,
                      created_at = 0, approved_at = None\<rparr>])
       []) 12345
     = Some \<lparr>name = ''Test User'', phone = ''+1234567890'', approved = True,
             created_at = 0, approved_at = Some 0\<rparr>"
proof -
  let ?e = "\<lparr>db_fault = False, utc_now = 0, tz_offset = 0\<rparr>"
  let ?tf = "\<lparr>send_user_fault = False, send_group_fault = False, answer_fault = False,
              edit_fault = False\<rparr>"
  let ?cb = "\<lparr>from_user_id = 1454702347, from_username = None, data = ''reject_12345''\<rparr>"
  let ?cb' = "\<lparr>from_user_id = 1454702347, from_username = None, data = ''approve_12345''\<rparr>"
  let ?r = "\<lparr>name = ''Test User'', phone = ''+1234567890'', approved = False,
             created_at = 0, approved_at = None\<rparr>"
  have h1: "is_admin 1454702347 (from_user_id ?cb) \<and> callback_user_id ?cb = Inr 12345 \<and>
            [12345 \<mapsto> ?r] 12345 = Some ?r \<and> \<not> db_fault ?e \<and> \<not> send_user_fault ?tf \<and>
            \<not> send_group_fault ?tf \<and> \<not> answer_fault ?tf \<and> \<not> edit_fault ?tf"
    by (simp add: is_admin_def cb_reject)
  have h2: "is_admin 1454702347 (from_user_id ?cb') \<and> callback_user_id ?cb' = Inr 12345 \<and>
            [12345 \<mapsto> ?r] 12345 = Some ?r \<and> \<not> approved ?r \<and> \<not> db_fault ?e \<and> \<not> db_fault ?e"
    by (simp add: is_admin_def cb_approve)
  note inst = reject_user_keeps_store [where a = 1454702347 and e = ?e and tf = ?tf and cb = ?cb
      and t = "[12345 \<mapsto> ?r]" and ws = "[]" and calls = "[(?e, ?tf, ?cb), (?e, ?tf, ?cb)]"
      and uid = 12345 and r = ?r and cb' = ?cb' and e_get = ?e and e_upd = ?e
      and lf = no_ledger_fault and tf' = ?tf and ws' = "[]"]
  from inst h1 have ev: "out_events (reject_user 1454702347 ?e ?tf ?cb [12345 \<mapsto> ?r] [])
     = [SendToUser 12345 RejectedNotice,
        SendToAdminGroup (RejectedReport 12345 (name ?r) (phone ?r)),
        Answer RejectedAlert, EditText (RejectedEdit (name ?r) 12345)]"
    by blast
  from inst h2 have ap: "out_table (approve_user 1454702347 ?e ?e no_ledger_fault ?tf ?cb'
       (reject_many 1454702347 [] [(?e, ?tf, ?cb), (?e, ?tf, ?cb)] [12345 \<mapsto> ?r]) []) 12345
     = Some (?r\<lparr>approved := True, approved_at := Some (datetime_now ?e)\<rparr>)"
    by blast
  from ev ap show ?thesis by (simp add: datetime_now_def)
qed

end
